theory Spec2Isabelle
  imports Main "HOL-Library.Sublist"
begin

section \<open>Python string operations used by the classifier\<close>

text \<open>
  Strings are lists of characters and are read as ASCII text. The three operations
  that \<open>get_llm_sentiment\<close> applies to the model's answer are \<open>str.strip()\<close>,
  \<open>str.title()\<close> and the substring test \<open>sub in s\<close>. On ASCII text, \<open>strip\<close> removes the
  leading and trailing characters for which \<open>str.isspace\<close> holds (tab, line feed, vertical
  tab, form feed, carriage return, the four separators 0x1C to 0x1F, and space), and
  \<open>title\<close> upper-cases a letter that does not follow a letter and lower-cases a letter
  that follows a letter, leaving every other character as it is. Characters above 0x7F
  are outside the model: they are carried through unchanged, which is not what Python does
  with them, so the statements about a text that is not fixed ask for \<open>ascii\<close> text.
\<close>

definition is_space :: "char \<Rightarrow> bool" where
  "is_space c = (c \<in> set [CHR 0x09, CHR 0x0A, CHR 0x0B, CHR 0x0C, CHR 0x0D,
                           CHR 0x1C, CHR 0x1D, CHR 0x1E, CHR 0x1F, CHR 0x20])"

definition strip :: "string \<Rightarrow> string" where
  "strip s = rev (dropWhile is_space (rev (dropWhile is_space s)))"

definition uppers :: string where
  "uppers = ''ABCDEFGHIJKLMNOPQRSTUVWXYZ''"

definition lowers :: string where
  "lowers = ''abcdefghijklmnopqrstuvwxyz''"

definition is_upper :: "char \<Rightarrow> bool" where
  "is_upper c = (c \<in> set uppers)"

definition is_lower :: "char \<Rightarrow> bool" where
  "is_lower c = (c \<in> set lowers)"

definition is_cased :: "char \<Rightarrow> bool" where
  "is_cased c = (is_upper c \<or> is_lower c)"

definition to_lower :: "char \<Rightarrow> char" where
  "to_lower c = (case map_of (zip uppers lowers) c of Some l \<Rightarrow> l | None \<Rightarrow> c)"

definition to_upper :: "char \<Rightarrow> char" where
  "to_upper c = (case map_of (zip lowers uppers) c of Some u \<Rightarrow> u | None \<Rightarrow> c)"

text \<open>
  \<open>title_from prev s\<close> is the loop of \<open>str.title\<close>: \<open>prev\<close> tells whether the previous
  character was cased.
\<close>

fun title_from :: "bool \<Rightarrow> string \<Rightarrow> string" where
  "title_from prev [] = []"
| "title_from prev (c # cs) =
     (if prev then to_lower c else to_upper c) # title_from (is_cased c) cs"

definition title :: "string \<Rightarrow> string" where
  "title s = title_from False s"


text \<open>\<open>py_in sub s\<close> is Python's \<open>sub in s\<close> on strings: \<open>sub\<close> occurs in \<open>s\<close> as a
  contiguous substring.\<close>

fun py_in :: "string \<Rightarrow> string \<Rightarrow> bool" where
  "py_in sub [] = (sub = [])"
| "py_in sub (c # cs) = (prefix sub (c # cs) \<or> py_in sub cs)"

section \<open>The inference endpoint and the world\<close>

text \<open>
  The request that \<open>requests.post\<close> sends: the configured URL and timeout, and the payload
  with the model name, the rendered prompt and \<open>stream = False\<close>.
\<close>

record request =
  url :: string
  model :: string
  prompt :: string
  stream :: bool
  timeout :: nat

definition OLLAMA_API_URL :: string where
  "OLLAMA_API_URL = ''http://localhost:11434/api/generate''"

definition OLLAMA_MODEL :: string where
  "OLLAMA_MODEL = ''gemma3:27b''"

definition REQUEST_TIMEOUT :: nat where
  "REQUEST_TIMEOUT = 60"

definition PROMPT_TEMPLATE :: "string \<Rightarrow> string" where
  "PROMPT_TEMPLATE review_text =
     [CHR 0x0A] @ ''Analyze the sentiment of the following product review.'' @ [CHR 0x0A]
     @ ''Respond with only one word: Positive, Negative, or Neutral.'' @ [CHR 0x0A]
     @ [CHR 0x0A]
     @ ''Review: '' @ [CHR 0x22] @ review_text @ [CHR 0x22] @ [CHR 0x0A]
     @ [CHR 0x0A]
     @ ''Sentiment:''"

definition build_request :: "string \<Rightarrow> request" where
  "build_request review_text =
     \<lparr>url = OLLAMA_API_URL, model = OLLAMA_MODEL, prompt = PROMPT_TEMPLATE review_text,
      stream = False, timeout = REQUEST_TIMEOUT\<rparr>"

text \<open>
  The exceptions that occur. \<open>ConnectionError\<close>, \<open>Timeout\<close>, \<open>HTTPError\<close> and the
  \<open>JSONDecodeError\<close> of the requests library are subclasses of
  \<open>requests.exceptions.RequestException\<close>; the others are not.
\<close>

datatype exn =
    ConnectionError | Timeout | HTTPError | JSONDecodeError
  | AttributeError | TypeError | KeyError | ValueError | FileNotFoundError
  | RecursionError | OverflowError | OSError

fun is_RequestException :: "exn \<Rightarrow> bool" where
  "is_RequestException ConnectionError = True"
| "is_RequestException Timeout = True"
| "is_RequestException HTTPError = True"
| "is_RequestException JSONDecodeError = True"
| "is_RequestException _ = False"

text \<open>A JSON value as \<open>response.json()\<close> returns it; an object keeps its members in the
  order of the text, and the last binding of a repeated key is the one Python keeps.\<close>

datatype json =
    JNull | JBool bool | JNum int | JStr string
  | JArr "json list" | JObj "(string \<times> json) list"

text \<open>
  The body of a response, by what \<open>response.json()\<close> does with it. \<open>NotJson\<close>: the text is
  not JSON, and \<open>JSONDecodeError\<close> is raised. \<open>TooDeep\<close>: the text is JSON nested deeper
  than the interpreter's recursion limit allows, and \<open>RecursionError\<close> is raised.
  \<open>HugeInt\<close>: the text is JSON with an integer of more digits than the interpreter's limit
  for the conversion of integers (4300), and \<open>ValueError\<close> is raised. \<open>Json j\<close>: the text
  is JSON and the value \<open>j\<close> is returned.
\<close>

datatype body = NotJson | TooDeep | HugeInt | Json json

text \<open>
  What one call of \<open>requests.post\<close> does: it raises an exception (no connection, a timeout),
  or it returns a response with a status code and a body.
\<close>

datatype reply = PostRaised exn | Response nat body

text \<open>
  The endpoint is any function from the number of calls made so far and the request to
  a reply, so it may answer each attempt differently. The world counts the calls and
  records what the program does to it, in order. It also holds the machine's monotonic
  clock: \<open>monotonic w n\<close> is its reading, in nanoseconds since the machine started, at
  the moment the world has seen \<open>n\<close> events.
\<close>

type_synonym endpoint = "nat \<Rightarrow> request \<Rightarrow> reply"

datatype message =
    InputNotFound | CsvFormatError | UnexpectedError
  | ResultsSaved | WriteError | NoResultsToSave

datatype event = Post request | Sleep int | Report message

record world =
  calls :: nat
  trace :: "event list"
  monotonic :: "nat \<Rightarrow> int"

definition do_post :: "request \<Rightarrow> world \<Rightarrow> world" where
  "do_post req w = w\<lparr>calls := calls w + 1, trace := trace w @ [Post req]\<rparr>"

definition do_sleep :: "int \<Rightarrow> world \<Rightarrow> world" where
  "do_sleep d w = w\<lparr>trace := trace w @ [Sleep d]\<rparr>"

definition do_report :: "message \<Rightarrow> world \<Rightarrow> world" where
  "do_report m w = w\<lparr>trace := trace w @ [Report m]\<rparr>"

section \<open>get_llm_sentiment\<close>

text \<open>\<open>response.raise_for_status()\<close> raises \<open>HTTPError\<close> for the status codes 4xx and 5xx,
  as the comment at the call says, and for no other.\<close>

definition raise_for_status :: "nat \<Rightarrow> bool" where
  "raise_for_status st = (400 \<le> st \<and> st < 600)"

text \<open>A response with a status 1xx, 204 or 304 has no body, whatever the server
  sends: its text is empty, which is not JSON.\<close>

definition bodiless :: "nat \<Rightarrow> bool" where
  "bodiless st = (st < 200 \<or> st = 204 \<or> st = 304)"

text \<open>\<open>response.json()\<close>: the value, or the exception raised.\<close>

definition response_json :: "nat \<Rightarrow> body \<Rightarrow> exn + json" where
  "response_json st b =
     (if bodiless st then Inl JSONDecodeError
      else (case b of
              NotJson \<Rightarrow> Inl JSONDecodeError
            | TooDeep \<Rightarrow> Inl RecursionError
            | HugeInt \<Rightarrow> Inl ValueError
            | Json j \<Rightarrow> Inr j))"

text \<open>\<open>response_data.get('response', '')\<close>: only a dict has \<open>get\<close>.\<close>

fun get_response :: "json \<Rightarrow> exn + json" where
  "get_response (JObj kvs) =
     Inr (case map_of (rev kvs) ''response'' of None \<Rightarrow> JStr '''' | Some v \<Rightarrow> v)"
| "get_response _ = Inl AttributeError"

text \<open>\<open>.strip()\<close> on the value found: only a string has \<open>strip\<close>.\<close>

fun strip_value :: "json \<Rightarrow> exn + string" where
  "strip_value (JStr s) = Inr (strip s)"
| "strip_value _ = Inl AttributeError"

text \<open>Lines 47 to 56: from the reply to the stripped response text, or the exception
  raised on the way.\<close>

definition response_text :: "reply \<Rightarrow> exn + string" where
  "response_text r =
     (case r of
        PostRaised e \<Rightarrow> Inl e
      | Response st b \<Rightarrow>
          if raise_for_status st then Inl HTTPError
          else (case response_json st b of
                  Inl e \<Rightarrow> Inl e
                | Inr response_data \<Rightarrow>
                    (case get_response response_data of
                       Inl e \<Rightarrow> Inl e
                     | Inr v \<Rightarrow> strip_value v)))"

text \<open>Lines 60 to 73: title-case the text, accept an exact label, else look for a label
  inside the text, in the order Positive, Negative, Neutral.\<close>

definition parse_sentiment :: "string \<Rightarrow> string" where
  "parse_sentiment stripped =
     (let llm_response_text = title stripped in
      if llm_response_text \<in> set [''Positive'', ''Negative'', ''Neutral'']
      then llm_response_text
      else if py_in ''Positive'' llm_response_text then ''Positive''
      else if py_in ''Negative'' llm_response_text then ''Negative''
      else if py_in ''Neutral'' llm_response_text then ''Neutral''
      else ''Error: Parse Failed'')"

text \<open>
  \<open>time.sleep(secs)\<close> with an integer, as CPython 3.11 does it on Linux. The seconds are
  converted to nanoseconds in a signed 64-bit number, and \<open>OverflowError\<close> is raised when
  they do not fit, that is from 9223372037 seconds on. Then \<open>ValueError\<close> is raised for a
  negative length. Then the deadline, the reading \<open>now\<close> of the monotonic clock plus the
  length, is computed in the same 64 bits and handed to \<open>clock_nanosleep\<close>; when it does
  not fit it wraps to a negative time, which the system refuses, and \<open>OSError\<close> is raised.
\<close>

definition sleep_raises :: "int \<Rightarrow> int \<Rightarrow> exn option" where
  "sleep_raises now secs =
     (if secs * 1000000000 < - (2 ^ 63) \<or> 2 ^ 63 \<le> secs * 1000000000
      then Some OverflowError
      else if secs < 0 then Some ValueError
      else if 2 ^ 63 \<le> now + secs * 1000000000 then Some OSError
      else None)"

text \<open>
  The loop \<open>for attempt in range(retries)\<close>, over the list of the remaining values of
  \<open>attempt\<close>. The result is \<open>Inr\<close> the string returned or \<open>Inl\<close> the exception that leaves the
  function. An exception that is not a \<open>RequestException\<close> is not caught, nor is one
  raised by \<open>time.sleep\<close> in the handler. The progress lines printed on the way are not
  modelled: printing is taken to succeed.
\<close>

fun attempt_loop ::
  "endpoint \<Rightarrow> request \<Rightarrow> int \<Rightarrow> int \<Rightarrow> int list \<Rightarrow> world \<Rightarrow> (exn + string) \<times> world" where
  "attempt_loop ep req retries delay [] w = (Inr ''Error: Max Retries'', w)"
| "attempt_loop ep req retries delay (attempt # rest) w =
     (let w1 = do_post req w in
      case response_text (ep (calls w) req) of
        Inr stripped \<Rightarrow> (Inr (parse_sentiment stripped), w1)
      | Inl e \<Rightarrow>
          if is_RequestException e then
            (if attempt < retries - 1 then
               (case sleep_raises (monotonic w1 (length (trace w1))) delay of
                  Some e' \<Rightarrow> (Inl e', w1)
                | None \<Rightarrow> attempt_loop ep req retries delay rest (do_sleep delay w1))
             else (Inr ''Error: API Failed'', w1))
          else (Inl e, w1))"

definition get_llm_sentiment ::
  "endpoint \<Rightarrow> string \<Rightarrow> int \<Rightarrow> int \<Rightarrow> world \<Rightarrow> (exn + string) \<times> world" where
  "get_llm_sentiment ep review_text retries delay w =
     attempt_loop ep (build_request review_text) retries delay [0..retries - 1] w"

section \<open>The batch driver\<close>

text \<open>
  The input is taken as \<open>csv.DictReader\<close> presents it: the file is missing, or it opens
  and gives the field names of its header (\<open>None\<close> for an empty file) and one dict per
  row. A row shorter than the header has \<open>None\<close> as the value of the columns it lacks.
\<close>

datatype cell = Str string | NoneVal

type_synonym row = "string \<rightharpoonup> cell"

record csv_file =
  fieldnames :: "string list option"
  rows :: "row list"

datatype infile = Missing | Opened csv_file

record result =
  ProductID :: cell
  ReviewText :: string
  Sentiment :: string

text \<open>
  The body of \<open>for i, row in enumerate(reader)\<close>, lines 98 to 110, with the global list
  \<open>results\<close> passed along. A missing key raises \<open>KeyError\<close>, slicing \<open>None\<close> in
  \<open>review_text[:100]\<close> raises \<open>TypeError\<close>, and an exception that leaves
  \<open>get_llm_sentiment\<close> leaves the loop too. The classifier is called with its defaults,
  \<open>retries = 3\<close> and \<open>delay = 5\<close>.
\<close>

fun process_rows ::
  "endpoint \<Rightarrow> row list \<Rightarrow> result list \<Rightarrow> world \<Rightarrow> exn option \<times> result list \<times> world" where
  "process_rows ep [] results w = (None, results, w)"
| "process_rows ep (row # rest) results w =
     (case row ''ProductID'' of
        None \<Rightarrow> (Some KeyError, results, w)
      | Some product_id \<Rightarrow>
          (case row ''ReviewText'' of
             None \<Rightarrow> (Some KeyError, results, w)
           | Some NoneVal \<Rightarrow> (Some TypeError, results, w)
           | Some (Str review_text) \<Rightarrow>
               (case get_llm_sentiment ep review_text 3 5 w of
                  (Inl e, w') \<Rightarrow> (Some e, results, w')
                | (Inr sentiment, w') \<Rightarrow>
                    process_rows ep rest
                      (results @ [\<lparr>ProductID = product_id, ReviewText = review_text,
                                   Sentiment = sentiment\<rparr>]) w')))"

text \<open>
  The three \<open>except\<close> clauses of lines 112 to 120, by the message each prints before
  \<open>exit()\<close>. The \<open>JSONDecodeError\<close> of requests is a \<open>ValueError\<close> as well.
\<close>

fun handler :: "exn \<Rightarrow> message" where
  "handler FileNotFoundError = InputNotFound"
| "handler ValueError = CsvFormatError"
| "handler JSONDecodeError = CsvFormatError"
| "handler _ = UnexpectedError"

text \<open>
  What a run leaves behind: the list \<open>results\<close>, the output file it wrote completely
  (header and rows) if any, whether it ended by \<open>exit()\<close> before the output stage, and
  the world.
\<close>

record run =
  results :: "result list"
  outfile :: "(string list \<times> string list list) option"
  exited :: bool
  final :: world

definition exit_run :: "message \<Rightarrow> result list \<Rightarrow> world \<Rightarrow> run" where
  "exit_run m rs w = \<lparr>results = rs, outfile = None, exited = True, final = do_report m w\<rparr>"

text \<open>\<open>csv.DictWriter\<close> writes \<open>None\<close> as the empty string.\<close>

fun cell_text :: "cell \<Rightarrow> string" where
  "cell_text (Str s) = s"
| "cell_text NoneVal = []"

definition result_row :: "result \<Rightarrow> string list" where
  "result_row r = [cell_text (ProductID r), ReviewText r, Sentiment r]"

text \<open>
  Lines 132 to 144. \<open>write_ok\<close> tells whether opening and writing the output file
  succeeds; when it does not, \<open>IOError\<close> is caught and reported.
\<close>

definition save_results :: "bool \<Rightarrow> result list \<Rightarrow> world \<Rightarrow> run" where
  "save_results write_ok rs w =
     (if rs \<noteq> [] then
        (if write_ok then
           \<lparr>results = rs,
            outfile = Some ([''ProductID'', ''ReviewText'', ''Sentiment''], map result_row rs),
            exited = False, final = do_report ResultsSaved w\<rparr>
         else \<lparr>results = rs, outfile = None, exited = False, final = do_report WriteError w\<rparr>)
      else \<lparr>results = rs, outfile = None, exited = False,
             final = do_report NoResultsToSave w\<rparr>)"

text \<open>
  The script, lines 88 to 144. Testing \<open>'ProductID' not in reader.fieldnames\<close> on the
  \<open>None\<close> of an empty file raises \<open>TypeError\<close>.
\<close>

definition main :: "endpoint \<Rightarrow> infile \<Rightarrow> bool \<Rightarrow> world \<Rightarrow> run" where
  "main ep input write_ok w =
     (case input of
        Missing \<Rightarrow> exit_run (handler FileNotFoundError) [] w
      | Opened f \<Rightarrow>
          (case fieldnames f of
             None \<Rightarrow> exit_run (handler TypeError) [] w
           | Some fs \<Rightarrow>
               if ''ProductID'' \<notin> set fs \<or> ''ReviewText'' \<notin> set fs
               then exit_run (handler ValueError) [] w
               else (case process_rows ep (rows f) [] w of
                       (Some e, rs, w') \<Rightarrow> exit_run (handler e) rs w'
                     | (None, rs, w') \<Rightarrow> save_results write_ok rs w')))"

text \<open>The world at the start of a run, on a machine that has been up for an hour.\<close>

definition start :: world where
  "start = \<lparr>calls = 0, trace = [], monotonic = (\<lambda>n. 3600000000000)\<rparr>"

section \<open>Notions used in the statements\<close>





text \<open>
  The input has both required columns; a row is complete when it has a string in both;
  the input is well formed when it has the columns and all its rows are complete.
\<close>

definition has_columns :: "csv_file \<Rightarrow> bool" where
  "has_columns f =
     (case fieldnames f of
        None \<Rightarrow> False
      | Some fs \<Rightarrow> ''ProductID'' \<in> set fs \<and> ''ReviewText'' \<in> set fs)"

definition product_id_of :: "row \<Rightarrow> string" where
  "product_id_of row = (case row ''ProductID'' of Some (Str p) \<Rightarrow> p | _ \<Rightarrow> [])"

definition review_text_of :: "row \<Rightarrow> string" where
  "review_text_of row = (case row ''ReviewText'' of Some (Str t) \<Rightarrow> t | _ \<Rightarrow> [])"

definition complete_row :: "row \<Rightarrow> bool" where
  "complete_row row =
     ((case row ''ProductID'' of Some (Str p) \<Rightarrow> True | _ \<Rightarrow> False) \<and>
      (case row ''ReviewText'' of Some (Str t) \<Rightarrow> True | _ \<Rightarrow> False))"

definition well_formed :: "csv_file \<Rightarrow> bool" where
  "well_formed f = (has_columns f \<and> list_all complete_row (rows f))"

text \<open>
  The classifier's results for a list of review texts, one call after the other with
  the defaults of the driver, each call starting in the world the previous one left.
\<close>

fun sentiments :: "endpoint \<Rightarrow> string list \<Rightarrow> world \<Rightarrow> (exn + string) list" where
  "sentiments ep [] w = []"
| "sentiments ep (t # ts) w =
     (case get_llm_sentiment ep t 3 5 w of (r, w') \<Rightarrow> r # sentiments ep ts w')"

text \<open>The result record of a complete row whose classification returned.\<close>

definition labelled :: "row \<Rightarrow> exn + string \<Rightarrow> result" where
  "labelled row r =
     \<lparr>ProductID = Str (product_id_of row), ReviewText = review_text_of row,
      Sentiment = projr r\<rparr>"

text \<open>
  Two endpoints for the examples: one gives the same reply to every call, the other
  gives one reply to the first call and another to all later calls.
\<close>

definition always :: "reply \<Rightarrow> endpoint" where
  [simp]: "always = (\<lambda>r n req. r)"

definition first_then :: "reply \<Rightarrow> reply \<Rightarrow> endpoint" where
  [simp]: "first_then = (\<lambda>r1 r2 n req. if n = 0 then r1 else r2)"

text \<open>Two inputs for the examples, with one and with two reviews.\<close>

definition one_review :: csv_file where
  "one_review =
     \<lparr>fieldnames = Some [''ProductID'', ''ReviewText''],
      rows = [[''ProductID'' \<mapsto> Str ''A1'', ''ReviewText'' \<mapsto> Str ''great'']]\<rparr>"

definition two_reviews :: csv_file where
  "two_reviews =
     \<lparr>fieldnames = Some [''ProductID'', ''ReviewText''],
      rows = [[''ProductID'' \<mapsto> Str ''A1'', ''ReviewText'' \<mapsto> Str ''great''],
              [''ProductID'' \<mapsto> Str ''B2'', ''ReviewText'' \<mapsto> Str ''bad'']]\<rparr>"

section \<open>The retry loop, the strings and the rows\<close>


lemma monotonic_do [simp]:
  "monotonic (do_post req w) = monotonic w"
  "monotonic (do_sleep d w) = monotonic w"
  by (simp_all add: do_post_def do_sleep_def)

lemma parse_sentiment_range:
  "parse_sentiment t \<in> {''Positive'', ''Negative'', ''Neutral'', ''Error: Parse Failed''}"
  unfolding parse_sentiment_def Let_def by auto

lemma loop_step_text:
  assumes "a \<le> retries - 1" and "response_text (ep (calls w) req) = Inr t"
  shows "attempt_loop ep req retries delay [a..retries - 1] w =
           (Inr (parse_sentiment t), do_post req w)"
proof -
  have "[a..retries - 1] = a # [a + 1..retries - 1]"
    using assms(1) by (simp add: upto_rec1)
  then show ?thesis using assms(2) by simp
qed





lemma loop_not_max_retries:
  "a \<le> retries - 1 \<Longrightarrow>
     fst (attempt_loop ep req retries delay [a..retries - 1] w) \<noteq> Inr ''Error: Max Retries''"
proof (induction "nat (retries - 1 - a)" arbitrary: a w)
  case 0
  then have a: "a = retries - 1" by simp
  show ?case
  proof (cases "response_text (ep (calls w) req)")
    case (Inl e)
    then show ?thesis unfolding a by (simp add: Let_def)
  next
    case (Inr t)
    have "parse_sentiment t \<noteq> ''Error: Max Retries''"
      using parse_sentiment_range [of t] by auto
    then show ?thesis using Inr unfolding a by (simp add: Let_def)
  qed
next
  case (Suc n)
  then have lt: "a < retries - 1" by simp
  then have up: "[a..retries - 1] = a # [a + 1..retries - 1]" by (simp add: upto_rec1)
  have ih: "fst (attempt_loop ep req retries delay [a + 1..retries - 1] w') \<noteq>
              Inr ''Error: Max Retries''" for w'
    by (rule Suc.hyps(1)) (use Suc.hyps(2) lt in simp_all)
  show ?case
  proof (cases "response_text (ep (calls w) req)")
    case (Inl e)
    then show ?thesis unfolding up using lt ih by (simp add: Let_def split: option.splits)
  next
    case (Inr t)
    have "parse_sentiment t \<noteq> ''Error: Max Retries''"
      using parse_sentiment_range [of t] by auto
    then show ?thesis using Inr unfolding up by (simp add: Let_def)
  qed
qed
















lemma length_sentiments: "length (sentiments ep ts w) = length ts"
  by (induction ts arbitrary: w) (simp_all split: prod.splits)

lemma process_rows_complete:
  assumes "list_all complete_row rs"
    and "\<forall>r \<in> set (sentiments ep (map review_text_of rs) w). \<not> isl r"
  shows "\<exists>w'. process_rows ep rs acc w =
           (None, acc @ map2 labelled rs (sentiments ep (map review_text_of rs) w), w')"
  using assms
proof (induction rs arbitrary: acc w)
  case Nil
  then show ?case by simp
next
  case (Cons row rs)
  from Cons.prems(1) obtain p t
    where p: "row ''ProductID'' = Some (Str p)" and t: "row ''ReviewText'' = Some (Str t)"
    by (auto simp: complete_row_def split: option.splits cell.splits)
  have rt: "review_text_of row = t" and pid: "product_id_of row = p"
    using p t by (simp_all add: review_text_of_def product_id_of_def)
  obtain r w1 where g: "get_llm_sentiment ep t 3 5 w = (r, w1)" by (cases "get_llm_sentiment ep t 3 5 w")
  have s: "sentiments ep (map review_text_of (row # rs)) w
            = r # sentiments ep (map review_text_of rs) w1"
    using g rt by simp
  have "\<not> isl r" using Cons.prems(2) unfolding s by simp
  then obtain lab where r: "r = Inr lab" by (cases r) simp_all
  have rest: "\<forall>r \<in> set (sentiments ep (map review_text_of rs) w1). \<not> isl r"
    using Cons.prems(2) unfolding s by simp
  have la: "list_all complete_row rs" using Cons.prems(1) by simp
  from Cons.IH [OF la rest, of "acc @ [\<lparr>ProductID = Str p, ReviewText = t, Sentiment = lab\<rparr>]"]
  obtain w' where "process_rows ep rs (acc @ [\<lparr>ProductID = Str p, ReviewText = t, Sentiment = lab\<rparr>]) w1 =
      (None, (acc @ [\<lparr>ProductID = Str p, ReviewText = t, Sentiment = lab\<rparr>]) @
         map2 labelled rs (sentiments ep (map review_text_of rs) w1), w')" by blast
  then have "process_rows ep (row # rs) acc w =
      (None, acc @ map2 labelled (row # rs) (sentiments ep (map review_text_of (row # rs)) w), w')"
    unfolding s using p t g r rt pid by (simp add: labelled_def)
  then show ?case by blast
qed

lemma process_rows_length:
  "process_rows ep rs acc w = (None, res, w') \<Longrightarrow> length res = length acc + length rs"
proof (induction rs arbitrary: acc w)
  case Nil
  then show ?case by simp
next
  case (Cons row rs)
  then show ?case
    by (auto split: option.splits cell.splits prod.splits sum.splits)
qed

lemma result_row_labelled:
  "map result_row (map2 labelled rs ss) =
     map2 (\<lambda>row r. [product_id_of row, review_text_of row, projr r]) rs ss"
  by (induction rs ss rule: list_induct2') (simp_all add: result_row_def labelled_def)

lemma save_results_nonempty:
  "rs \<noteq> [] \<Longrightarrow> save_results write_ok rs w =
     (if write_ok then
        \<lparr>results = rs,
         outfile = Some ([''ProductID'', ''ReviewText'', ''Sentiment''], map result_row rs),
         exited = False, final = do_report ResultsSaved w\<rparr>
      else \<lparr>results = rs, outfile = None, exited = False, final = do_report WriteError w\<rparr>)"
  by (simp add: save_results_def)

lemma main_shape:
  "(\<exists>m rs w'. \<forall>wo. main ep input wo w = exit_run m rs w') \<or>
   (\<exists>rs w'. (\<forall>wo. main ep input wo w = save_results wo rs w') \<and>
      (\<exists>f. input = Opened f \<and> has_columns f \<and> process_rows ep (rows f) [] w = (None, rs, w')))"
proof (cases input)
  case Missing
  then show ?thesis by (auto simp: main_def)
next
  case (Opened f)
  show ?thesis
  proof (cases "has_columns f")
    case False
    then show ?thesis using Opened
      by (auto simp: main_def has_columns_def split: option.splits)
  next
    case True
    then obtain fs where fs: "fieldnames f = Some fs" "''ProductID'' \<in> set fs" "''ReviewText'' \<in> set fs"
      by (auto simp: has_columns_def split: option.splits)
    obtain e rs w' where p: "process_rows ep (rows f) [] w = (e, rs, w')"
      by (cases "process_rows ep (rows f) [] w")
    show ?thesis
    proof (cases e)
      case None
      then have "\<forall>wo. main ep input wo w = save_results wo rs w'"
        using Opened fs p by (simp add: main_def)
      then show ?thesis using Opened True p None by blast
    next
      case (Some x)
      then have "\<forall>wo. main ep input wo w = exit_run (handler x) rs w'"
        using Opened fs p by (simp add: main_def)
      then show ?thesis by blast
    qed
  qed
qed

section \<open>The claims\<close>














text \<open>
  C6. When the input file opens and its header lacks \<open>ProductID\<close> or \<open>ReviewText\<close> (or the
  file is empty and has no header at all), the run ends by \<open>exit()\<close> with no result, no
  output file and no call of the endpoint: the world is the one the run started in, with
  only the error message added.
\<close>

theorem missing_column_aborts_before_classifying:
  assumes "\<not> has_columns f"
  shows "main ep (Opened f) write_ok w =
           \<lparr>results = [], outfile = None, exited = True,
            final = w\<lparr>trace := trace w @
              [Report (if fieldnames f = None then UnexpectedError else CsvFormatError)]\<rparr>\<rparr>"
  using assms
  by (auto simp: main_def has_columns_def exit_run_def do_report_def split: option.splits)

theorem missing_column_aborts_before_classifying_witness:
  "main (always (Response 200 (Json (JObj [(''response'', JStr ''Positive'')]))))
     (Opened \<lparr>fieldnames = Some [''ProductID'', ''Stars''],
              rows = [[''ProductID'' \<mapsto> Str ''A1'', ''Stars'' \<mapsto> Str ''5'']]\<rparr>) True start =
   \<lparr>results = [], outfile = None, exited = True,
    final = start\<lparr>calls := 0, trace := [Report CsvFormatError]\<rparr>\<rparr>"
proof -
  let ?f = "\<lparr>fieldnames = Some [''ProductID'', ''Stars''],
              rows = [[''ProductID'' \<mapsto> Str ''A1'', ''Stars'' \<mapsto> Str ''5'']]\<rparr>"
  have h: "\<not> has_columns ?f" by (simp add: has_columns_def)
  show ?thesis
    using missing_column_aborts_before_classifying [OF h, of
      "always (Response 200 (Json (JObj [(''response'', JStr ''Positive'')])))" True start]
    by (simp add: start_def)
qed

text \<open>
  C7, as amended. For a well-formed input with at least one row, if no classification
  raises an exception, the run reaches the output stage and \<open>results\<close> has exactly one
  record per input row, in the order of the input, each with the row's \<open>ProductID\<close> and
  \<open>ReviewText\<close> as they were read and with the classifier's result for that text as
  \<open>Sentiment\<close>; when the write succeeds, the output file holds the header and exactly these
  rows. The claim as written, for every well-formed input, fails when the classifier
  raises: \<open>except Exception\<close> at line 118 then ends the run and nothing is written.
\<close>

theorem one_output_row_per_input_row:
  assumes "well_formed f" and "rows f \<noteq> []"
    and "\<forall>r \<in> set (sentiments ep (map review_text_of (rows f)) w). \<not> isl r"
  shows "results (main ep (Opened f) write_ok w) =
           map2 labelled (rows f) (sentiments ep (map review_text_of (rows f)) w)
       \<and> length (results (main ep (Opened f) write_ok w)) = length (rows f)
       \<and> \<not> exited (main ep (Opened f) write_ok w)
       \<and> outfile (main ep (Opened f) write_ok w) =
           (if write_ok
            then Some ([''ProductID'', ''ReviewText'', ''Sentiment''],
                       map2 (\<lambda>row r. [product_id_of row, review_text_of row, projr r])
                         (rows f) (sentiments ep (map review_text_of (rows f)) w))
            else None)"
proof -
  let ?ss = "sentiments ep (map review_text_of (rows f)) w"
  from assms(1) obtain fs where fs: "fieldnames f = Some fs"
    "''ProductID'' \<in> set fs" "''ReviewText'' \<in> set fs"
    by (auto simp: well_formed_def has_columns_def split: option.splits)
  have la: "list_all complete_row (rows f)" using assms(1) by (simp add: well_formed_def)
  from process_rows_complete [OF la assms(3), of "[]"]
  obtain w' where p: "process_rows ep (rows f) [] w = (None, map2 labelled (rows f) ?ss, w')"
    by auto
  have ne: "map2 labelled (rows f) ?ss \<noteq> []"
    using assms(2) length_sentiments [of ep "map review_text_of (rows f)" w]
    by (cases "rows f"; cases ?ss) simp_all
  have m: "main ep (Opened f) write_ok w = save_results write_ok (map2 labelled (rows f) ?ss) w'"
    using fs p by (simp add: main_def)
  have len: "length (map2 labelled (rows f) ?ss) = length (rows f)"
    by (simp add: length_sentiments)
  have rr: "map result_row (map2 labelled (rows f) ?ss) =
      map2 (\<lambda>row r. [product_id_of row, review_text_of row, projr r]) (rows f) ?ss"
    by (rule result_row_labelled)
  have s: "save_results write_ok (map2 labelled (rows f) ?ss) w' =
      (if write_ok then
         \<lparr>results = map2 labelled (rows f) ?ss,
          outfile = Some ([''ProductID'', ''ReviewText'', ''Sentiment''],
             map2 (\<lambda>row r. [product_id_of row, review_text_of row, projr r]) (rows f) ?ss),
          exited = False, final = do_report ResultsSaved w'\<rparr>
       else \<lparr>results = map2 labelled (rows f) ?ss, outfile = None, exited = False,
              final = do_report WriteError w'\<rparr>)"
    using save_results_nonempty [OF ne, of write_ok w'] unfolding rr .
  show ?thesis
    unfolding m s using len by (cases write_ok) simp_all
qed

theorem one_output_row_per_input_row_witness:
  "outfile (main (always (Response 200 (Json (JObj [(''response'', JStr ''Neutral'')]))))
             (Opened two_reviews) True start) =
   Some ([''ProductID'', ''ReviewText'', ''Sentiment''],
         [[''A1'', ''great'', ''Neutral''], [''B2'', ''bad'', ''Neutral'']])"
proof -
  let ?ep = "always (Response 200 (Json (JObj [(''response'', JStr ''Neutral'')])))"
  have t: "map review_text_of (rows two_reviews) = [''great'', ''bad'']"
    by code_simp
  have s: "sentiments ?ep [''great'', ''bad''] start = [Inr ''Neutral'', Inr ''Neutral'']"
    by code_simp
  have p: "map2 (\<lambda>row r. [product_id_of row, review_text_of row, projr r])
             (rows two_reviews) [Inr ''Neutral'', Inr ''Neutral''] =
           [[''A1'', ''great'', ''Neutral''], [''B2'', ''bad'', ''Neutral'']]"
    by code_simp
  have h1: "well_formed two_reviews" by code_simp
  have h2: "rows two_reviews \<noteq> []" by code_simp
  have h3: "\<forall>r \<in> set (sentiments ?ep (map review_text_of (rows two_reviews)) start). \<not> isl r"
    unfolding t s by simp
  note th = one_output_row_per_input_row [OF h1 h2 h3, of True, unfolded t s p]
  then show ?thesis by (simp only: if_True)
qed

theorem one_output_row_per_input_row_counterexample:
  "well_formed one_review \<and> rows one_review \<noteq> []
   \<and> results (main (always (Response 200 (Json (JArr [])))) (Opened one_review) True start) = []
   \<and> outfile (main (always (Response 200 (Json (JArr [])))) (Opened one_review) True start)
       = None
   \<and> exited (main (always (Response 200 (Json (JArr [])))) (Opened one_review) True start)
   \<and> trace (final
         (main (always (Response 200 (Json (JArr [])))) (Opened one_review) True start))
       = [Post (build_request ''great''), Report UnexpectedError]"
  by code_simp

text \<open>
  C8, as amended. The run writes an output file if and only if it reaches the output
  stage (it did not end by \<open>exit()\<close> while reading and classifying), at least one result
  was produced, and the write succeeds. A run that reaches the output stage has at least
  one result exactly when the input has at least one row. A failing write changes neither
  whether the run ends by \<open>exit()\<close> nor the results, and it is reported. The claim as
  written fails on a run in which a later row makes the classifier raise: a result was
  produced, the input has rows and the columns are there, and no file is written.
\<close>

theorem output_written_iff:
  "(outfile (main ep input write_ok w) \<noteq> None \<longleftrightarrow>
      \<not> exited (main ep input write_ok w) \<and> results (main ep input write_ok w) \<noteq> [] \<and> write_ok)
   \<and> exited (main ep input False w) = exited (main ep input True w)
   \<and> results (main ep input False w) = results (main ep input True w)
   \<and> (\<not> exited (main ep input False w) \<and> results (main ep input False w) \<noteq> [] \<longrightarrow>
        last (trace (final (main ep input False w))) = Report WriteError)
   \<and> (\<not> exited (main ep input write_ok w) \<longrightarrow>
        (\<exists>f. input = Opened f \<and> has_columns f \<and>
             (results (main ep input write_ok w) \<noteq> [] \<longleftrightarrow> rows f \<noteq> [])))"
proof -
  from main_shape [of ep input w] show ?thesis
  proof
    assume "\<exists>m rs w'. \<forall>wo. main ep input wo w = exit_run m rs w'"
    then show ?thesis by (auto simp: exit_run_def)
  next
    assume "\<exists>rs w'. (\<forall>wo. main ep input wo w = save_results wo rs w') \<and>
      (\<exists>f. input = Opened f \<and> has_columns f \<and> process_rows ep (rows f) [] w = (None, rs, w'))"
    then obtain rs w' f where m: "\<And>wo. main ep input wo w = save_results wo rs w'"
      and f: "input = Opened f" "has_columns f"
      and p: "process_rows ep (rows f) [] w = (None, rs, w')"
      by blast
    have "length rs = length (rows f)" using process_rows_length [OF p] by simp
    then have e: "rs \<noteq> [] \<longleftrightarrow> rows f \<noteq> []" by auto
    show ?thesis
      unfolding m using f e by (simp add: save_results_def do_report_def)
  qed
qed

theorem output_written_iff_witness:
  "outfile (main (always (Response 200 (Json (JObj [(''response'', JStr ''Neutral'')]))))
             (Opened one_review) False start) = None
   \<and> last (trace (final
         (main (always (Response 200 (Json (JObj [(''response'', JStr ''Neutral'')]))))
            (Opened one_review) False start))) = Report WriteError
   \<and> results (main (always (Response 200 (Json (JObj [(''response'', JStr ''Neutral'')]))))
                (Opened one_review) True start) =
       [\<lparr>ProductID = Str ''A1'', ReviewText = ''great'', Sentiment = ''Neutral''\<rparr>]"
proof -
  let ?ep = "always (Response 200 (Json (JObj [(''response'', JStr ''Neutral'')])))"
  have e: "\<not> exited (main ?ep (Opened one_review) False start)" by code_simp
  have r: "results (main ?ep (Opened one_review) False start) =
             [\<lparr>ProductID = Str ''A1'', ReviewText = ''great'', Sentiment = ''Neutral''\<rparr>]"
    by code_simp
  note th = output_written_iff [of ?ep "Opened one_review" False start]
  from th have o: "outfile (main ?ep (Opened one_review) False start) = None" by blast
  from th e r have l: "last (trace (final (main ?ep (Opened one_review) False start)))
                        = Report WriteError" by simp
  from th r have "results (main ?ep (Opened one_review) True start) =
             [\<lparr>ProductID = Str ''A1'', ReviewText = ''great'', Sentiment = ''Neutral''\<rparr>]"
    by simp
  with o l show ?thesis by blast
qed

theorem output_written_iff_counterexample:
  "has_columns two_reviews \<and> rows two_reviews \<noteq> []
   \<and> results
        (main (first_then (Response 200 (Json (JObj [(''response'', JStr ''Positive'')])))
                          (Response 200 (Json (JArr []))))
           (Opened two_reviews) True start)
       = [\<lparr>ProductID = Str ''A1'', ReviewText = ''great'', Sentiment = ''Positive''\<rparr>]
   \<and> outfile
        (main (first_then (Response 200 (Json (JObj [(''response'', JStr ''Positive'')])))
                          (Response 200 (Json (JArr []))))
           (Opened two_reviews) True start)
       = None
   \<and> exited
        (main (first_then (Response 200 (Json (JObj [(''response'', JStr ''Positive'')])))
                          (Response 200 (Json (JArr []))))
           (Opened two_reviews) True start)
   \<and> trace (final
        (main (first_then (Response 200 (Json (JObj [(''response'', JStr ''Positive'')])))
                          (Response 200 (Json (JArr []))))
           (Opened two_reviews) True start))
       = [Post (build_request ''great''), Post (build_request ''bad''), Report UnexpectedError]"
  by code_simp

text \<open>
  C9. Called with \<open>retries\<close> zero or negative, \<open>get_llm_sentiment\<close> calls the endpoint not
  once (the world is returned as it was) and returns \<open>Error: Max Retries\<close>, which is none
  of the five values of the enumeration; with \<open>retries\<close> at least 1 it never returns that
  string, whatever the endpoint does.
\<close>

theorem max_retries_only_without_attempts:
  "(retries \<le> 0 \<longrightarrow>
      get_llm_sentiment ep review_text retries delay w = (Inr ''Error: Max Retries'', w))
   \<and> (1 \<le> retries \<longrightarrow>
      fst (get_llm_sentiment ep review_text retries delay w) \<noteq> Inr ''Error: Max Retries'')
   \<and> ''Error: Max Retries'' \<notin>
      {''Positive'', ''Negative'', ''Neutral'', ''Error: Parse Failed'', ''Error: API Failed''}"
proof (intro conjI impI)
  assume "retries \<le> 0"
  then have "[0..retries - 1] = []" by simp
  then show "get_llm_sentiment ep review_text retries delay w = (Inr ''Error: Max Retries'', w)"
    by (simp add: get_llm_sentiment_def)
next
  assume "1 \<le> retries"
  then have "0 \<le> retries - 1" by simp
  then show "fst (get_llm_sentiment ep review_text retries delay w) \<noteq> Inr ''Error: Max Retries''"
    unfolding get_llm_sentiment_def by (rule loop_not_max_retries)
next
  show "''Error: Max Retries'' \<notin>
      {''Positive'', ''Negative'', ''Neutral'', ''Error: Parse Failed'', ''Error: API Failed''}"
    by simp
qed

theorem max_retries_only_without_attempts_witness:
  "get_llm_sentiment (always (PostRaised ConnectionError)) ''fine'' 0 5 start
     = (Inr ''Error: Max Retries'', start)
   \<and> fst (get_llm_sentiment (always (PostRaised ConnectionError)) ''fine'' 1 5 start)
     \<noteq> Inr ''Error: Max Retries''"
  using max_retries_only_without_attempts [of 0 "always (PostRaised ConnectionError)" "''fine''" 5 start]
    max_retries_only_without_attempts [of 1 "always (PostRaised ConnectionError)" "''fine''" 5 start]
  by simp

text \<open>
  C10. The substring test works on the title-cased text, so a label inside a longer word
  matches: the answer \<open>Positively awful\<close> becomes \<open>Positively Awful\<close> and is classified
  \<open>Positive\<close>, for every review text and from every state of the world.
\<close>

theorem label_inside_longer_word:
  "fst (get_llm_sentiment
          (always (Response 200 (Json (JObj [(''response'', JStr ''Positively awful'')]))))
          review_text 3 5 w) = Inr ''Positive''
   \<and> title (strip ''Positively awful'') = ''Positively Awful''
   \<and> parse_sentiment ''Positively awful'' = ''Positive''"
proof -
  have t: "title ''Positively awful'' = ''Positively Awful''" by code_simp
  have s: "strip ''Positively awful'' = ''Positively awful''" by code_simp
  have p: "parse_sentiment ''Positively awful'' = ''Positive''" by code_simp
  have r: "response_text (Response 200 (Json (JObj [(''response'', JStr ''Positively awful'')])))
             = Inr ''Positively awful''"
    by (simp add: response_text_def response_json_def bodiless_def raise_for_status_def s)
  have "attempt_loop
          (always (Response 200 (Json (JObj [(''response'', JStr ''Positively awful'')]))))
          (build_request review_text) 3 5 [0..3 - 1] w
        = (Inr (parse_sentiment ''Positively awful''), do_post (build_request review_text) w)"
    by (rule loop_step_text) (simp_all add: r)
  then show ?thesis by (simp add: get_llm_sentiment_def p t s)
qed

end
